theory Spec2Isabelle
  imports Main "HOL-Library.Sublist"
begin

section \<open>Persistence models (src/database/models.py)\<close>

text \<open>
  A calendar date as Python's \<open>datetime.date\<close>; the timestamps \<open>created_at\<close> and
  \<open>updated_at\<close> are points in time, of which only equality matters here.
\<close>

record date =
  year :: int
  month :: int
  day :: int

type_synonym timestamp = int

text \<open>
  The row of table \<open>contacts\<close>. The column \<open>birthday\<close> is nullable; it is written only
  from a \<open>datetime.date\<close> of the request body, so its time of day is always midnight and
  the date is all it holds.
\<close>

record contact =
  c_id :: int
  first_name :: string
  last_name :: string
  email :: string
  phone_number :: string
  birthday :: "date option"
  created_at :: timestamp
  updated_at :: timestamp
  user_id :: int

text \<open>The row of table \<open>users\<close>.\<close>

record user =
  u_id :: int
  username :: string
  u_email :: string
  password :: string
  refresh_token :: "string option"
  avatar :: "string option"
  u_created_at :: timestamp
  u_updated_at :: timestamp
  confirmed :: bool

text \<open>The request body \<open>ContactBase\<close> (= \<open>ContactCreate\<close> = \<open>ContactUpdate\<close>) of src/schemas/contacts.py.\<close>

record contact_body =
  b_first_name :: string
  b_last_name :: string
  b_email :: string
  b_phone_number :: string
  b_birthday :: "date option"

text \<open>
  The database behind an \<open>AsyncSession\<close>: both tables in scan order, the sequence that
  generates \<open>contacts.id\<close>, and the number of commits issued so far.
\<close>

record db =
  contacts :: "contact list"
  users :: "user list"
  next_id :: int
  commits :: nat

datatype error =
  MultipleResultsFound
  | DBAPIError
  | AttributeError
  | HTTPException int string

section \<open>The query layer\<close>

subsection \<open>LIKE patterns\<close>

text \<open>
  \<open>ILIKE\<close> of PostgreSQL: in the pattern \<open>%\<close> stands for any string, \<open>_\<close> for any one
  character and a backslash takes the next character literally; a pattern that ends in a
  lone backslash is rejected. Letters are compared without case (ASCII folding).
\<close>

datatype like_token = Any_string | Any_char | Literal char

fun like_tokens :: "string \<Rightarrow> like_token list option" where
  "like_tokens [] = Some []"
| "like_tokens (c # p) =
     (if c = CHR ''%'' then map_option ((#) Any_string) (like_tokens p)
      else if c = CHR ''_'' then map_option ((#) Any_char) (like_tokens p)
      else if c = CHR 0x5C then
        (case p of [] \<Rightarrow> None
         | e # p' \<Rightarrow> map_option ((#) (Literal e)) (like_tokens p'))
      else map_option ((#) (Literal c)) (like_tokens p))"

fun like_match :: "like_token list \<Rightarrow> string \<Rightarrow> bool" where
  "like_match [] s = (s = [])"
| "like_match (Any_string # ts) [] = like_match ts []"
| "like_match (Any_string # ts) (x # s) =
     (like_match ts (x # s) \<or> like_match (Any_string # ts) s)"
| "like_match (Any_char # ts) [] = False"
| "like_match (Any_char # ts) (x # s) = like_match ts s"
| "like_match (Literal c # ts) [] = False"
| "like_match (Literal c # ts) (x # s) = (x = c \<and> like_match ts s)"

definition lower :: "char \<Rightarrow> char" where
  "lower c =
     (if 65 \<le> (of_char c :: nat) \<and> (of_char c :: nat) \<le> 90
      then char_of ((of_char c :: nat) + 32) else c)"

definition ilike :: "string \<Rightarrow> string \<Rightarrow> bool option" where
  \<comment> \<open>\<open>None\<close>: the pattern is rejected.\<close>
  "ilike p s = map_option (\<lambda>ts. like_match ts (map lower s)) (like_tokens (map lower p))"

subsection \<open>Statements over table contacts\<close>

text \<open>
  The statements the repository builds with \<open>select(Contact)\<close>: the criteria of
  \<open>filter\<close>/\<open>filter_by\<close>, joined by AND, and the optional \<open>offset\<close> and \<open>limit\<close>.
\<close>

datatype criterion =
  Id_eq int
  | User_id_eq int
  | First_name_ilike string
  | Last_name_ilike string
  | Email_ilike string
  | Birthday_month_eq int
  | Birthday_day_le int

record stmt =
  criteria :: "criterion list"
  stmt_offset :: "int option"
  stmt_limit :: "int option"

definition select_contact :: stmt where
  "select_contact = \<lparr>criteria = [], stmt_offset = None, stmt_limit = None\<rparr>"

definition filter_stmt :: "criterion list \<Rightarrow> stmt \<Rightarrow> stmt" where
  "filter_stmt ks q = q\<lparr>criteria := criteria q @ ks\<rparr>"

definition offset_stmt :: "int \<Rightarrow> stmt \<Rightarrow> stmt" where
  "offset_stmt n q = q\<lparr>stmt_offset := Some n\<rparr>"

definition limit_stmt :: "int \<Rightarrow> stmt \<Rightarrow> stmt" where
  "limit_stmt n q = q\<lparr>stmt_limit := Some n\<rparr>"

text \<open>
  A criterion on a row, in SQL's three-valued logic: \<open>None\<close> is NULL, which
  \<open>extract\<close> yields on a NULL birthday. The patterns are taken as already accepted
  (see \<open>pattern_ok\<close>).
\<close>

fun holds :: "criterion \<Rightarrow> contact \<Rightarrow> bool option" where
  "holds (Id_eq i) c = Some (c_id c = i)"
| "holds (User_id_eq u) c = Some (user_id c = u)"
| "holds (First_name_ilike p) c = ilike p (first_name c)"
| "holds (Last_name_ilike p) c = ilike p (last_name c)"
| "holds (Email_ilike p) c = ilike p (email c)"
| "holds (Birthday_month_eq m) c = map_option (\<lambda>d. month d = m) (birthday c)"
| "holds (Birthday_day_le n) c = map_option (\<lambda>d. day d \<le> n) (birthday c)"

fun pattern_ok :: "criterion \<Rightarrow> bool" where
  "pattern_ok (First_name_ilike p) = (like_tokens (map lower p) \<noteq> None)"
| "pattern_ok (Last_name_ilike p) = (like_tokens (map lower p) \<noteq> None)"
| "pattern_ok (Email_ilike p) = (like_tokens (map lower p) \<noteq> None)"
| "pattern_ok _ = True"

definition where_clause :: "criterion list \<Rightarrow> contact \<Rightarrow> bool" where
  \<comment> \<open>WHERE keeps a row only when every criterion is true on it (not false, not NULL).\<close>
  "where_clause ks c = list_all (\<lambda>k. holds k c = Some True) ks"

definition negative :: "int option \<Rightarrow> bool" where
  "negative n = (case n of None \<Rightarrow> False | Some i \<Rightarrow> i < 0)"

definition paginate :: "int option \<Rightarrow> int option \<Rightarrow> 'a list \<Rightarrow> 'a list" where
  "paginate off lim rows =
     (let skipped = (case off of None \<Rightarrow> rows | Some n \<Rightarrow> drop (nat n) rows)
      in case lim of None \<Rightarrow> skipped | Some n \<Rightarrow> take (nat n) skipped)"

text \<open>
  \<open>await db.execute(stmt)\<close> followed by \<open>.scalars().all()\<close>. PostgreSQL rejects a
  negative OFFSET or LIMIT and a malformed LIKE pattern; the driver raises.
\<close>

definition execute :: "db \<Rightarrow> stmt \<Rightarrow> error + contact list" where
  "execute d q =
     (if negative (stmt_offset q) \<or> negative (stmt_limit q)
         \<or> \<not> list_all pattern_ok (criteria q)
      then Inl DBAPIError
      else Inr (paginate (stmt_offset q) (stmt_limit q)
                  (filter (where_clause (criteria q)) (contacts d))))"

definition scalar_one_or_none :: "'a list \<Rightarrow> error + 'a option" where
  "scalar_one_or_none rows =
     (case rows of [] \<Rightarrow> Inr None
      | [r] \<Rightarrow> Inr (Some r)
      | _ \<Rightarrow> Inl MultipleResultsFound)"

text \<open>The columns are \<open>String(50)\<close>: PostgreSQL rejects a longer value.\<close>

definition fits_columns :: "contact_body \<Rightarrow> bool" where
  "fits_columns body \<longleftrightarrow>
     length (b_first_name body) \<le> 50 \<and> length (b_last_name body) \<le> 50
     \<and> length (b_email body) \<le> 50 \<and> length (b_phone_number body) \<le> 50"

section \<open>Contact repository (src/repository/contacts.py)\<close>

text \<open>
  \<open>db.add(contact)\<close>, \<open>commit\<close>, \<open>refresh\<close>: the INSERT takes the id from the sequence
  and both timestamps from the clock. It fails on a value too long for its column, on an
  owner that is no row of \<open>users\<close> (foreign key) and on an id already taken (primary key).
\<close>

definition insert_contact :: "db \<Rightarrow> contact_body \<Rightarrow> int \<Rightarrow> timestamp \<Rightarrow> error + contact \<times> db" where
  "insert_contact d body owner now =
     (if fits_columns body \<and> owner \<in> set (map u_id (users d))
         \<and> next_id d \<notin> set (map c_id (contacts d))
      then
        (let contact = \<lparr>c_id = next_id d, first_name = b_first_name body,
               last_name = b_last_name body, email = b_email body,
               phone_number = b_phone_number body, birthday = b_birthday body,
               created_at = now, updated_at = now, user_id = owner\<rparr>
         in Inr (contact, d\<lparr>contacts := contacts d @ [contact], next_id := next_id d + 1,
                            commits := Suc (commits d)\<rparr>))
      else Inl DBAPIError)"

definition create :: "contact_body \<Rightarrow> db \<Rightarrow> user \<Rightarrow> timestamp \<Rightarrow> (error + contact) \<times> db" where
  "create body d user now =
     (case insert_contact d body (u_id user) now of
        Inr (contact, d') \<Rightarrow> (Inr contact, d')
      | Inl e \<Rightarrow> (Inl (HTTPException 500 ''Internal Server Error''), d))"








text \<open>The f-string \<open>%{value}%\<close>, and Python's truth of an optional string.\<close>

definition contains_pattern :: "string \<Rightarrow> string" where
  "contains_pattern v = CHR ''%'' # v @ [CHR ''%'']"

definition truthy :: "string option \<Rightarrow> bool" where
  "truthy v = (case v of None \<Rightarrow> False | Some s \<Rightarrow> s \<noteq> [])"

definition search_query ::
  "string option \<Rightarrow> string option \<Rightarrow> string option \<Rightarrow> int \<Rightarrow> int \<Rightarrow> user \<Rightarrow> stmt" where
  "search_query q_first_name q_last_name q_email skip limit user =
     (let query0 = filter_stmt [User_id_eq (u_id user)] select_contact;
          query1 = (case q_first_name of
                      Some v \<Rightarrow> if truthy q_first_name
                                then filter_stmt [First_name_ilike (contains_pattern v)] query0
                                else query0
                    | None \<Rightarrow> query0);
          query2 = (case q_last_name of
                      Some v \<Rightarrow> if truthy q_last_name
                                then filter_stmt [Last_name_ilike (contains_pattern v)] query1
                                else query1
                    | None \<Rightarrow> query1);
          query3 = (case q_email of
                      Some v \<Rightarrow> if truthy q_email
                                then filter_stmt [Email_ilike (contains_pattern v)] query2
                                else query2
                    | None \<Rightarrow> query2)
      in limit_stmt limit (offset_stmt skip query3))"

text \<open>The \<open>try\<close> around \<open>execute\<close>: any exception of the query gives the empty list.\<close>

definition search ::
  "string option \<Rightarrow> string option \<Rightarrow> string option \<Rightarrow> int \<Rightarrow> int \<Rightarrow> db \<Rightarrow> user \<Rightarrow> contact list" where
  "search q_first_name q_last_name q_email skip limit d user =
     (case execute d (search_query q_first_name q_last_name q_email skip limit user) of
        Inr rows \<Rightarrow> rows
      | Inl e \<Rightarrow> [])"

section \<open>Contact routes (src/routes/contacts.py)\<close>

text \<open>
  \<open>POST /contacts\<close>: the handler answers 201 with the contact, and turns every
  exception of the repository's \<open>create\<close> into \<open>HTTPException(404)\<close>.
\<close>

definition create_contact ::
  "contact_body \<Rightarrow> db \<Rightarrow> user \<Rightarrow> timestamp \<Rightarrow> (error + int \<times> contact) \<times> db" where
  "create_contact contact_data d user now =
     (case create contact_data d user now of
        (Inr contact, d') \<Rightarrow> (Inr (201, contact), d')
      | (Inl e, d') \<Rightarrow> (Inl (HTTPException 404 ''NOT FOUND''), d'))"

section \<open>User repository (src/repository/users.py)\<close>

definition get_user_by_email :: "string \<Rightarrow> db \<Rightarrow> error + user option" where
  "get_user_by_email mail d = scalar_one_or_none (filter (\<lambda>u. u_email u = mail) (users d))"

text \<open>
  \<open>user.confirmed = True\<close> on \<open>None\<close> raises \<open>AttributeError\<close> before any commit. On a
  row, the commit writes the UPDATE (and \<open>onupdate\<close> the timestamp) when the flag changes.
\<close>

definition confirmed_email :: "string \<Rightarrow> db \<Rightarrow> timestamp \<Rightarrow> (error + unit) \<times> db" where
  "confirmed_email mail d now =
     (case get_user_by_email mail d of
        Inl e \<Rightarrow> (Inl e, d)
      | Inr None \<Rightarrow> (Inl AttributeError, d)
      | Inr (Some user) \<Rightarrow>
          if confirmed user then (Inr (), d\<lparr>commits := Suc (commits d)\<rparr>)
          else (Inr (),
                d\<lparr>users := map (\<lambda>r. if u_id r = u_id user
                                     then r\<lparr>confirmed := True, u_updated_at := now\<rparr> else r) (users d),
                  commits := Suc (commits d)\<rparr>))"

section \<open>Notions used to state the properties\<close>






section \<open>Sample data\<close>

text \<open>
  Two users and three contacts of the first one, for the concrete runs below. The clock of
  the sample runs is a small number.
\<close>

definition ex_user :: user where
  "ex_user = \<lparr>u_id = 1, username = ''ann'', u_email = ''ann@x.com'', password = ''h'',
     refresh_token = None, avatar = None, u_created_at = 0, u_updated_at = 0,
     confirmed = False\<rparr>"

definition ex_other :: user where
  "ex_other = \<lparr>u_id = 2, username = ''bob'', u_email = ''bob@x.com'', password = ''h'',
     refresh_token = None, avatar = None, u_created_at = 0, u_updated_at = 0,
     confirmed = True\<rparr>"

definition ex_john :: contact where
  "ex_john = \<lparr>c_id = 1, first_name = ''John'', last_name = ''Doe'', email = ''john@x.com'',
     phone_number = ''123'', birthday = Some \<lparr>year = 1990, month = 1, day = 5\<rparr>,
     created_at = 0, updated_at = 0, user_id = 1\<rparr>"

definition ex_jane :: contact where
  "ex_jane = \<lparr>c_id = 2, first_name = ''Jane'', last_name = ''Roe'', email = ''jane@x.com'',
     phone_number = ''456'', birthday = None, created_at = 0, updated_at = 0, user_id = 1\<rparr>"

definition ex_mary :: contact where
  "ex_mary = \<lparr>c_id = 3, first_name = ''Mary'', last_name = ''Major'', email = ''mary@x.com'',
     phone_number = ''789'', birthday = Some \<lparr>year = 1985, month = 2, day = 2\<rparr>,
     created_at = 0, updated_at = 0, user_id = 1\<rparr>"

definition ex_db :: db where
  "ex_db = \<lparr>contacts = [ex_john, ex_jane, ex_mary], users = [ex_user, ex_other],
     next_id = 4, commits = 0\<rparr>"


definition ex_body :: contact_body where
  "ex_body = \<lparr>b_first_name = ''Jon'', b_last_name = ''Doe'', b_email = ''jon@x.com'',
     b_phone_number = ''123'', b_birthday = Some \<lparr>year = 1990, month = 1, day = 5\<rparr>\<rparr>"

definition ex_long_body :: contact_body where
  \<comment> \<open>a first name of 51 characters\<close>
  "ex_long_body = ex_body\<lparr>b_first_name := replicate 51 CHR ''a''\<rparr>"

definition ex_created :: contact where
  "ex_created = \<lparr>c_id = 4, first_name = ''Jon'', last_name = ''Doe'', email = ''jon@x.com'',
     phone_number = ''123'', birthday = Some \<lparr>year = 1990, month = 1, day = 5\<rparr>,
     created_at = 7, updated_at = 7, user_id = 1\<rparr>"

section \<open>Facts about the query layer\<close>





subsection \<open>Finding and rewriting one row\<close>

lemma scalar_one_or_none_Some:
  "scalar_one_or_none rows = Inr (Some r) \<longleftrightarrow> rows = [r]"
  by (auto simp: scalar_one_or_none_def split: list.splits)

lemma filter_map_same:
  assumes "\<And>x. P (g x) = P x"
  shows "filter P (map g xs) = map g (filter P xs)"
  using assms by (induction xs) auto







subsection \<open>The statement built by search\<close>



subsection \<open>Patterns without special characters\<close>


lemma lower_special [simp]:
  "lower CHR ''%'' = CHR ''%''"
  by (simp add: lower_def)









subsection \<open>The criteria of search\<close>









section \<open>Owner scoping\<close>







section \<open>Birthdays\<close>



section \<open>Search\<close>

text \<open>
  Claim C7. When the query that \<open>search\<close> has built fails in \<open>execute\<close>, \<open>search\<close> returns
  the empty list; it has no way to raise.
\<close>

theorem search_fallback:
  assumes "execute d (search_query q_first_name q_last_name q_email skip limit user) = Inl e"
  shows "search q_first_name q_last_name q_email skip limit d user = []"
  using assms by (simp add: search_def)

text \<open>A negative \<open>skip\<close> makes the query fail.\<close>

theorem search_fallback_witness:
  "search (Some ''Jo'') None None (- 1) 10 ex_db ex_user = []"
proof -
  have "execute ex_db (search_query (Some ''Jo'') None None (- 1) 10 ex_user) = Inl DBAPIError"
    by code_simp
  then show ?thesis by (rule search_fallback)
qed







section \<open>Update\<close>




section \<open>Email confirmation\<close>

text \<open>
  Claim C5, as amended. For the one user with the given email, \<open>confirmed_email\<close>
  completes and that user is confirmed afterwards, the contacts untouched. When no user has
  that email it raises \<open>AttributeError\<close> and hands back the database as it was.
\<close>

theorem confirmed_email_outcome:
  "(get_user_by_email mail d = Inr (Some u) \<longrightarrow>
      fst (confirmed_email mail d now) = Inr ()
      \<and> get_user_by_email mail (snd (confirmed_email mail d now))
          = Inr (Some (u\<lparr>confirmed := True,
                         u_updated_at := (if confirmed u then u_updated_at u else now)\<rparr>))
      \<and> contacts (snd (confirmed_email mail d now)) = contacts d)
   \<and> (get_user_by_email mail d = Inr None \<longrightarrow>
        confirmed_email mail d now = (Inl AttributeError, d))"
proof (intro conjI impI)
  assume none: "get_user_by_email mail d = Inr None"
  then show "confirmed_email mail d now = (Inl AttributeError, d)"
    by (simp add: confirmed_email_def)
next
  assume some: "get_user_by_email mail d = Inr (Some u)"
  then show "fst (confirmed_email mail d now) = Inr ()"
    by (simp add: confirmed_email_def)
  from some show "contacts (snd (confirmed_email mail d now)) = contacts d"
    by (simp add: confirmed_email_def)
  from some have rows: "filter (\<lambda>r. u_email r = mail) (users d) = [u]"
    by (simp add: get_user_by_email_def scalar_one_or_none_Some)
  show "get_user_by_email mail (snd (confirmed_email mail d now))
          = Inr (Some (u\<lparr>confirmed := True,
                         u_updated_at := (if confirmed u then u_updated_at u else now)\<rparr>))"
  proof (cases "confirmed u")
    case True
    then have "u\<lparr>confirmed := True, u_updated_at := u_updated_at u\<rparr> = u" by simp
    with True some show ?thesis
      by (simp add: confirmed_email_def get_user_by_email_def)
  next
    case False
    let ?g = "\<lambda>r. if u_id r = u_id u then r\<lparr>confirmed := True, u_updated_at := now\<rparr> else r"
    have "filter (\<lambda>r. u_email r = mail) (map ?g (users d))
        = map ?g (filter (\<lambda>r. u_email r = mail) (users d))"
      by (rule filter_map_same) simp
    with rows False some show ?thesis
      by (simp add: confirmed_email_def get_user_by_email_def scalar_one_or_none_def)
  qed
qed

theorem confirmed_email_outcome_witness:
  "fst (confirmed_email ''ann@x.com'' ex_db 7) = Inr ()
   \<and> get_user_by_email ''ann@x.com'' (snd (confirmed_email ''ann@x.com'' ex_db 7))
       = Inr (Some (ex_user\<lparr>confirmed := True, u_updated_at := 7\<rparr>))
   \<and> confirmed_email ''zed@x.com'' ex_db 7 = (Inl AttributeError, ex_db)"
proof -
  have a: "get_user_by_email ''ann@x.com'' ex_db = Inr (Some ex_user)" by code_simp
  have z: "get_user_by_email ''zed@x.com'' ex_db = Inr None" by code_simp
  have c: "\<not> confirmed ex_user" by (simp add: ex_user_def)
  from confirmed_email_outcome [of "''ann@x.com''" ex_db ex_user 7] a c
    confirmed_email_outcome [of "''zed@x.com''" ex_db ex_user 7] z
  show ?thesis by simp
qed

text \<open>The claim as stated fails: for an unknown email the call raises.\<close>

theorem confirmed_email_counterexample:
  "get_user_by_email ''zed@x.com'' ex_db = Inr None
   \<and> fst (confirmed_email ''zed@x.com'' ex_db 7) = Inl AttributeError"
  by code_simp

section \<open>Creation over HTTP\<close>

text \<open>
  Claim C6. A first name of 51 characters violates the column's length: the repository's
  \<open>create\<close> raises \<open>HTTPException(500)\<close>, and the handler \<open>create_contact\<close>, which catches
  every exception, answers 404 and not 500. A body that fits is answered with 201 and the
  stored row, with its generated id and its timestamps.
\<close>

theorem create_contact_failure_status:
  "fst (create ex_long_body ex_db ex_user 7) = Inl (HTTPException 500 ''Internal Server Error'')
   \<and> create_contact ex_long_body ex_db ex_user 7 = (Inl (HTTPException 404 ''NOT FOUND''), ex_db)
   \<and> fst (create_contact ex_body ex_db ex_user 7) = Inr (201, ex_created)"
  by code_simp

end
